theory Spec2Isabelle
  imports Main "HOL-Library.Word" "HOL-Library.AList"
begin

unbundle bit_operations_syntax

section \<open>The greeting service of app/app.js\<close>

text \<open>
  The repository's program is one file:
  \<^verbatim>\<open>
  const express = require('express');
  const app = express();

  const PORT = 3000;

  app.get('/', (req, res) => {
    res.send('Hello from ECS deployed via Azure DevOps <rocket>');
  });

  app.listen(PORT, () => {
    console.log(`App running on port ${PORT}`);
  });
  \<close>
  Everything it does is done through four calls into the Express framework
  (\<open>express()\<close>, \<open>app.get\<close>, \<open>res.send\<close>, \<open>app.listen\<close>). Express is a dependency
  of the repository, not part of it. The second part of this theory therefore writes down
  what these calls do, following the framework's own implementation (express 4.x:
  \<open>lib/router/index.js\<close>, \<open>lib/router/route.js\<close>, \<open>lib/request.js\<close>,
  \<open>lib/response.js\<close>, and the packages \<open>fresh\<close> and \<open>etag\<close> they call), under the
  default settings, none of which app.js changes. The third part is app.js itself, statement
  by statement.

  Strings are byte strings: a JavaScript string that is written to the network is encoded as
  UTF-8, and a header of a request reaches the program as one character per byte.
\<close>

subsection \<open>Numbers as text\<close>

definition digit_char :: "nat \<Rightarrow> char" where
  "digit_char d = ''0123456789abcdef'' ! d"

text \<open>\<open>Number.prototype.toString(radix)\<close> on a non-negative integer, for a radix from 2 to 16.\<close>

function to_radix :: "nat \<Rightarrow> nat \<Rightarrow> string" where
  "to_radix b n = (if b < 2 \<or> n < b then [digit_char n]
                   else to_radix b (n div b) @ [digit_char (n mod b)])"
  by pat_completeness auto
termination
  by (relation "measure (\<lambda>(b, n). n)") auto

declare to_radix.simps [simp del]

definition decimal :: "nat \<Rightarrow> string" where
  "decimal n = to_radix 10 n"

definition hex :: "nat \<Rightarrow> string" where
  "hex n = to_radix 16 n"

subsection \<open>SHA-1 and Base64, as the entity-tag generator uses them\<close>

type_synonym byte = "8 word"

definition rotl32 :: "nat \<Rightarrow> 32 word \<Rightarrow> 32 word" where
  "rotl32 n w = push_bit n w OR drop_bit (32 - n) w"

definition bytes_of_word32 :: "32 word \<Rightarrow> byte list" where
  "bytes_of_word32 w =
     [ucast (drop_bit 24 w), ucast (drop_bit 16 w), ucast (drop_bit 8 w), ucast w]"

definition bytes_of_word64 :: "64 word \<Rightarrow> byte list" where
  "bytes_of_word64 w =
     [ucast (drop_bit 56 w), ucast (drop_bit 48 w), ucast (drop_bit 40 w), ucast (drop_bit 32 w),
      ucast (drop_bit 24 w), ucast (drop_bit 16 w), ucast (drop_bit 8 w), ucast w]"

text \<open>Padding: a one bit, zeros up to 56 modulo 64 bytes, the bit length on 64 bits.\<close>

definition sha1_pad :: "byte list \<Rightarrow> byte list" where
  "sha1_pad m = m @ [0x80] @ replicate ((119 - length m mod 64) mod 64) 0
                  @ bytes_of_word64 (word_of_nat (8 * length m))"

fun words_of_bytes :: "byte list \<Rightarrow> 32 word list" where
  "words_of_bytes (a # b # c # d # bs) =
     (push_bit 24 (ucast a) OR push_bit 16 (ucast b) OR push_bit 8 (ucast c) OR ucast d)
       # words_of_bytes bs"
| "words_of_bytes _ = []"

fun blocks :: "nat \<Rightarrow> 32 word list \<Rightarrow> 32 word list list" where
  "blocks 0 ws = []"
| "blocks (Suc n) ws = take 16 ws # blocks n (drop 16 ws)"

text \<open>The message schedule: \<open>schedule 64\<close> extends the 16 words of a block to 80.\<close>

fun schedule :: "nat \<Rightarrow> 32 word list \<Rightarrow> 32 word list" where
  "schedule 0 ws = ws"
| "schedule (Suc n) ws =
     (let i = length ws in
      schedule n
        (ws @ [rotl32 1 (ws ! (i - 3) XOR ws ! (i - 8) XOR ws ! (i - 14) XOR ws ! (i - 16))]))"

type_synonym sha1_state = "32 word \<times> 32 word \<times> 32 word \<times> 32 word \<times> 32 word"

definition sha1_round :: "32 word list \<Rightarrow> nat \<Rightarrow> sha1_state \<Rightarrow> sha1_state" where
  "sha1_round w i = (\<lambda>(a, b, c, d, e).
     (let f = (if i < 20 then (b AND c) OR (NOT b AND d)
               else if i < 40 then b XOR c XOR d
               else if i < 60 then (b AND c) OR (b AND d) OR (c AND d)
               else b XOR c XOR d);
          k = (if i < 20 then 0x5A827999 else if i < 40 then 0x6ED9EBA1
               else if i < 60 then 0x8F1BBCDC else 0xCA62C1D6)
      in (rotl32 5 a + f + e + k + w ! i, a, rotl32 30 b, c, d)))"

definition sha1_block :: "sha1_state \<Rightarrow> 32 word list \<Rightarrow> sha1_state" where
  "sha1_block = (\<lambda>(h0, h1, h2, h3, h4) blk.
     (case fold (sha1_round (schedule 64 blk)) [0..<80] (h0, h1, h2, h3, h4) of
        (a, b, c, d, e) \<Rightarrow> (h0 + a, h1 + b, h2 + c, h3 + d, h4 + e)))"

definition sha1 :: "byte list \<Rightarrow> byte list" where
  "sha1 m = (let ws = words_of_bytes (sha1_pad m) in
     case fold (\<lambda>blk h. sha1_block h blk) (blocks (length ws div 16) ws)
            (0x67452301, 0xEFCDAB89, 0x98BADCFE, 0x10325476, 0xC3D2E1F0) of
       (h0, h1, h2, h3, h4) \<Rightarrow> concat (map bytes_of_word32 [h0, h1, h2, h3, h4]))"

definition b64_alphabet :: string where
  "b64_alphabet = ''ABCDEFGHIJKLMNOPQRSTUVWXYZabcdefghijklmnopqrstuvwxyz0123456789+/''"

definition b64_char :: "32 word \<Rightarrow> char" where
  "b64_char n = b64_alphabet ! unat (n AND 63)"

fun base64 :: "byte list \<Rightarrow> string" where
  "base64 (a # b # c # bs) =
     (let n = push_bit 16 (ucast a) OR push_bit 8 (ucast b) OR ucast c in
      [b64_char (drop_bit 18 n), b64_char (drop_bit 12 n), b64_char (drop_bit 6 n), b64_char n]
        @ base64 bs)"
| "base64 [a, b] =
     (let n = push_bit 16 (ucast a) OR push_bit 8 (ucast b) in
      [b64_char (drop_bit 18 n), b64_char (drop_bit 12 n), b64_char (drop_bit 6 n), CHR ''=''])"
| "base64 [a] =
     (let n = push_bit 16 (ucast a) in
      [b64_char (drop_bit 18 n), b64_char (drop_bit 12 n), CHR ''='', CHR ''=''])"
| "base64 [] = []"

text \<open>
  The package \<open>etag\<close>: the tag of an entity is its length in hexadecimal and the first 27
  characters of the Base64 text of its SHA-1 digest, in double quotes. Express's default
  setting \<open>etag: 'weak'\<close> prefixes it with \<open>W/\<close>.
\<close>

definition entitytag :: "string \<Rightarrow> string" where
  "entitytag entity =
     (if entity = [] then ''\"0-2jmj7l5rSw0yVb/vlWAYkK/YBwk\"''
      else ''\"'' @ hex (length entity) @ ''-''
           @ take 27 (base64 (sha1 (map of_char entity))) @ ''\"'')"

definition etag_weak :: "string \<Rightarrow> string" where
  "etag_weak entity = ''W/'' @ entitytag entity"

section \<open>The Express framework, as app.js uses it\<close>

subsection \<open>Requests and responses\<close>

text \<open>
  The methods with which a request can reach the application. The image runs Node 18
  (\<open>FROM node:18-alpine\<close>), whose HTTP parser knows the 34 methods of \<open>http.METHODS\<close>;
  a request line with any other method name is answered by Node itself with 400 Bad Request,
  and a CONNECT request is not given to the request listener (no listener for it exists
  here, so Node closes the connection). That leaves 33 methods; \<open>M_SEARCH\<close> is
  \<open>M-SEARCH\<close>.
\<close>

datatype http_method =
  ACL | BIND | CHECKOUT | COPY | DELETE | GET | HEAD | LINK | LOCK | M_SEARCH | MERGE
  | MKACTIVITY | MKCALENDAR | MKCOL | MOVE | NOTIFY | OPTIONS | PATCH | POST | PROPFIND
  | PROPPATCH | PURGE | PUT | REBIND | REPORT | SEARCH | SOURCE | SUBSCRIBE | TRACE | UNBIND
  | UNLINK | UNLOCK | UNSUBSCRIBE

text \<open>
  The request object as a route sees it: \<open>req.method\<close>; \<open>req.path\<close>, the path name of the
  request URL, which is what the router matches; the query string; \<open>req.headers\<close>, keyed by
  lower-cased field name; and the bytes of the request body. It stands for a request that
  Node has parsed and handed to the application. What Node answers by itself (a request it
  cannot parse, a method it does not know, an \<open>Expect\<close> header other than
  \<open>100-continue\<close>) never becomes such an object, and is outside this theory.
\<close>

record request =
  req_method :: http_method
  req_path :: string
  req_query :: string
  req_headers :: "(string \<times> string) list"
  req_body :: string

record response =
  statusCode :: nat
  res_headers :: "(string \<times> string) list"
  res_body :: string

definition get_header :: "response \<Rightarrow> string \<Rightarrow> string option" where
  "get_header res name = map_of (res_headers res) name"

definition set_header :: "string \<Rightarrow> string \<Rightarrow> response \<Rightarrow> response" where
  "set_header name v res = res\<lparr>res_headers := AList.update name v (res_headers res)\<rparr>"

definition remove_header :: "string \<Rightarrow> response \<Rightarrow> response" where
  "remove_header name res = res\<lparr>res_headers := AList.delete name (res_headers res)\<rparr>"

text \<open>
  What a request ends in: a response written by a route's handler; the router's automatic
  answer to OPTIONS (status 200 with an \<open>Allow\<close> header listing the methods); or no layer
  answering, on which the framework's final handler writes its default 404 Not Found page.
\<close>

datatype reply = Sent response | Allowed "http_method list" | NotFound

fun reply_status :: "reply \<Rightarrow> nat" where
  "reply_status (Sent res) = statusCode res"
| "reply_status (Allowed ms) = 200"
| "reply_status NotFound = 404"

subsection \<open>Cache freshness (\<open>req.fresh\<close> and the package \<open>fresh\<close>)\<close>

text \<open>JavaScript's truthiness of a header value: present and not the empty string.\<close>

definition truthy :: "string option \<Rightarrow> bool" where
  "truthy v = (case v of None \<Rightarrow> False | Some s \<Rightarrow> s \<noteq> [])"

text \<open>
  \<open>parseTokenList\<close>: the elements of a comma-separated list, without the spaces around
  them. \<open>cur\<close> is the element read so far, \<open>sp\<close> the spaces read after it.
\<close>

fun parseTokenList :: "string \<Rightarrow> string \<Rightarrow> string \<Rightarrow> string list" where
  "parseTokenList cur sp [] = [cur]"
| "parseTokenList cur sp (c # cs) =
     (if c = CHR '' '' then
        (if cur = [] then parseTokenList [] [] cs else parseTokenList cur (sp @ [c]) cs)
      else if c = CHR '','' then cur # parseTokenList [] [] cs
      else parseTokenList (cur @ sp @ [c]) [] cs)"

text \<open>The characters that \<open>parseTokenList\<close> keeps in place: all but comma and space.\<close>

definition plain :: "char \<Rightarrow> bool" where
  "plain c = (c \<noteq> CHR '','' \<and> c \<noteq> CHR '' '')"

text \<open>
  The test \<open>/(?:^|,)\s*?no-cache\s*?(?:,|$)/\<close> on a Cache-Control value: some element of
  the comma-separated list is \<open>no-cache\<close> between white space.
\<close>

fun split_commas :: "string \<Rightarrow> string \<Rightarrow> string list" where
  "split_commas cur [] = [cur]"
| "split_commas cur (c # cs) =
     (if c = CHR '','' then cur # split_commas [] cs else split_commas (cur @ [c]) cs)"

definition white_space :: "char \<Rightarrow> bool" where
  "white_space c = (c \<in> set [CHR 0x20, CHR 0x09, CHR 0x0A, CHR 0x0B, CHR 0x0C, CHR 0x0D, CHR 0xA0])"

definition trim :: "string \<Rightarrow> string" where
  "trim s = rev (dropWhile white_space (rev (dropWhile white_space s)))"

definition no_cache :: "string \<Rightarrow> bool" where
  "no_cache v = list_ex (\<lambda>e. trim e = ''no-cache'') (split_commas [] v)"

definition etag_matches :: "string \<Rightarrow> string \<Rightarrow> bool" where
  "etag_matches etag noneMatch =
     list_ex (\<lambda>m. m = etag \<or> m = ''W/'' @ etag \<or> ''W/'' @ m = etag)
       (parseTokenList [] [] noneMatch)"

text \<open>
  \<open>fresh(reqHeaders, {etag, 'last-modified'})\<close>. No layer of this application sets a
  \<open>Last-Modified\<close> header, so the second argument has the entity tag only, and the test of
  \<open>If-Modified-Since\<close> against an undefined \<open>Last-Modified\<close> is always stale.
\<close>

definition fresh :: "(string \<times> string) list \<Rightarrow> string option \<Rightarrow> bool" where
  "fresh reqHeaders etag =
     (let modifiedSince = map_of reqHeaders ''if-modified-since'';
          noneMatch = map_of reqHeaders ''if-none-match'';
          cacheControl = map_of reqHeaders ''cache-control''
      in if \<not> truthy modifiedSince \<and> \<not> truthy noneMatch then False
         else if truthy cacheControl \<and> no_cache (the cacheControl) then False
         else if truthy noneMatch \<and> noneMatch \<noteq> Some ''*''
                 \<and> (\<not> truthy etag \<or> \<not> etag_matches (the etag) (the noneMatch)) then False
         else if truthy modifiedSince then False
         else True)"

definition req_fresh :: "request \<Rightarrow> response \<Rightarrow> bool" where
  "req_fresh req res =
     (if req_method req \<noteq> GET \<and> req_method req \<noteq> HEAD then False
      else if (200 \<le> statusCode res \<and> statusCode res < 300) \<or> statusCode res = 304
           then fresh (req_headers req) (get_header res ''ETag'')
      else False)"

subsection \<open>\<open>res.send\<close> with a string\<close>

text \<open>
  \<open>res.send(chunk)\<close> for a string: the content type defaults to HTML in UTF-8 when none is
  set (the only header set before a handler of this application runs is \<open>X-Powered-By\<close>;
  re-writing the character set of a type set beforehand is not modelled); the length and
  the weak entity tag are computed from the UTF-8 bytes; a fresh conditional request turns
  the answer into 304 Not Modified, which like 204 carries no content headers and no body;
  a 205 has length zero and no body; and a HEAD request is ended without a body.
\<close>

definition send :: "request \<Rightarrow> response \<Rightarrow> string \<Rightarrow> response" where
  "send req res chunk =
     (let res1 = (if get_header res ''Content-Type'' = None
                  then set_header ''Content-Type'' ''text/html; charset=utf-8'' res else res);
          res2 = set_header ''Content-Length'' (decimal (length chunk)) res1;
          res3 = (if get_header res2 ''ETag'' = None
                  then set_header ''ETag'' (etag_weak chunk) res2 else res2);
          res4 = (if req_fresh req res3 then res3\<lparr>statusCode := 304\<rparr> else res3);
          strip = (statusCode res4 = 204 \<or> statusCode res4 = 304);
          res5 = (if strip
                  then remove_header ''Transfer-Encoding''
                         (remove_header ''Content-Length'' (remove_header ''Content-Type'' res4))
                  else res4);
          reset = (statusCode res5 = 205);
          res6 = (if reset
                  then remove_header ''Transfer-Encoding'' (set_header ''Content-Length'' ''0'' res5)
                  else res5);
          chunk' = (if strip \<or> reset then [] else chunk)
      in if req_method req = HEAD then res6\<lparr>res_body := []\<rparr> else res6\<lparr>res_body := chunk'\<rparr>)"

subsection \<open>Routes and the router\<close>

text \<open>
  The state of the process that a handler can reach and change: the ports the process
  listens on and the lines written to the console. A handler receives it and returns it.
\<close>

record process =
  listening :: "nat list"
  console :: "string list"

type_synonym handler = "process \<Rightarrow> request \<Rightarrow> response \<Rightarrow> process \<times> response"

record route =
  route_path :: string
  route_method :: http_method
  route_handle :: handler

definition lower_char :: "char \<Rightarrow> char" where
  "lower_char c = (let n = of_char c :: nat in if 65 \<le> n \<and> n \<le> 90 then char_of (n + 32) else c)"

text \<open>
  A route's path, when it is a literal one (no parameters, no wild cards), is compiled (by
  path-to-regexp 0.1.x, under the default settings: routing neither strict nor
  case-sensitive) to an anchored pattern that ignores case and allows the final slash to be
  missing or added: \<open>'/'\<close> becomes \<open>/^\/?$/i\<close>, which takes \<open>/\<close> and the empty path.
  This is Express 4. The repository's sources do not say which major version is installed,
  and Express 5 compiles \<open>'/'\<close> to a pattern that takes \<open>/\<close> and \<open>//\<close>; the properties
  below that speak of paths other than the root leave both the empty path and \<open>//\<close> out.
\<close>

definition path_matches :: "string \<Rightarrow> string \<Rightarrow> bool" where
  "path_matches pattern p =
     (let a = map lower_char pattern; b = map lower_char p
      in if a \<noteq> [] \<and> last a = CHR ''/'' then b = a \<or> b = butlast a
         else b = a \<or> b = a @ ''/'')"

text \<open>\<open>Route.prototype._handles_method\<close>: a route for GET also takes HEAD.\<close>

definition handles_method :: "route \<Rightarrow> http_method \<Rightarrow> bool" where
  "handles_method rt m =
     (let name = (if m = HEAD \<and> route_method rt \<noteq> HEAD then GET else m)
      in route_method rt = name)"

text \<open>\<open>Route.prototype._options\<close>: the methods of a route, with the automatic HEAD.\<close>

definition route_options :: "route \<Rightarrow> http_method list" where
  "route_options rt = (if route_method rt = GET then [GET, HEAD] else [route_method rt])"

definition appendMethods :: "http_method list \<Rightarrow> http_method list \<Rightarrow> http_method list" where
  "appendMethods list addition = fold (\<lambda>m l. if m \<in> set l then l else l @ [m]) addition list"

text \<open>
  \<open>Router.prototype.handle\<close>: the layers of the stack in order. A layer whose path matches
  and whose route takes the method runs the handler, which ends the request (the one
  handler of this application never calls \<open>next\<close>). For an OPTIONS request the methods of
  the routes that match the path are collected, and answered at the end when there are any.
\<close>

fun router_handle ::
  "route list \<Rightarrow> http_method list \<Rightarrow> process \<Rightarrow> request \<Rightarrow> response \<Rightarrow> process \<times> reply" where
  "router_handle [] options ps req res =
     (ps, if req_method req = OPTIONS \<and> options \<noteq> [] then Allowed options else NotFound)"
| "router_handle (rt # stack) options ps req res =
     (if \<not> path_matches (route_path rt) (req_path req) then router_handle stack options ps req res
      else if handles_method rt (req_method req) then
        (case route_handle rt ps req res of (ps', res') \<Rightarrow> (ps', Sent res'))
      else router_handle stack
             (if req_method req = OPTIONS then appendMethods options (route_options rt) else options)
             ps req res)"

text \<open>
  \<open>app.handle\<close>: a new response has status 200 and no headers; the framework's first
  layer sets \<open>X-Powered-By\<close> (setting \<open>x-powered-by\<close>, enabled by default) and passes on.
\<close>

definition app_handle :: "route list \<Rightarrow> process \<Rightarrow> request \<Rightarrow> process \<times> reply" where
  "app_handle stack ps req =
     router_handle stack [] ps req
       (set_header ''X-Powered-By'' ''Express'' \<lparr>statusCode = 200, res_headers = [], res_body = []\<rparr>)"

section \<open>app.js\<close>

text \<open>
  The server is the application's stack of routes and the state of the process. The
  statements of app.js are transformers of it, applied in the order of the file.
\<close>

record server =
  app :: "route list"
  proc :: process

definition express :: server where
  "express = \<lparr>app = [], proc = \<lparr>listening = [], console = []\<rparr>\<rparr>"

definition app_get :: "string \<Rightarrow> handler \<Rightarrow> server \<Rightarrow> server" where
  "app_get pth h s =
     s\<lparr>app := app s @ [\<lparr>route_path = pth, route_method = GET, route_handle = h\<rparr>]\<rparr>"

definition console_log :: "string \<Rightarrow> process \<Rightarrow> process" where
  "console_log line ps = ps\<lparr>console := console ps @ [line]\<rparr>"

text \<open>
  What the process is started in: the environment variables, the command line, and the
  ports that other listeners hold.
\<close>

record environment =
  env_vars :: "(string \<times> string) list"
  argv :: "string list"
  ports_taken :: "nat list"

text \<open>
  How start-up ends: the server listens, or the bind has failed and the process ends
  without ever listening. (With a failed bind, the exit status, and whether the callback
  still runs, differ between Express 4, where the \<open>error\<close> event finds no listener, and
  Express 5, where the error is passed to the callback; they are not modelled.)
\<close>

datatype startup = Listening server | BindFailed

text \<open>A bind that succeeds: the port joins the ports listened on, then the callback runs.\<close>

definition bind_port :: "nat \<Rightarrow> (process \<Rightarrow> process) \<Rightarrow> server \<Rightarrow> server" where
  "bind_port port callback s =
     s\<lparr>proc := callback ((proc s)\<lparr>listening := listening (proc s) @ [port]\<rparr>)\<rparr>"

text \<open>\<open>app.listen(port, callback)\<close>: one attempt to bind, which fails when the port is taken.\<close>

definition app_listen ::
  "environment \<Rightarrow> nat \<Rightarrow> (process \<Rightarrow> process) \<Rightarrow> server \<Rightarrow> startup" where
  "app_listen e port callback s =
     (if port \<in> set (ports_taken e) then BindFailed else Listening (bind_port port callback s))"

definition PORT :: nat where
  "PORT = 3000"

text \<open>The greeting: 41 ASCII characters and the four UTF-8 bytes of U+1F680.\<close>

definition greeting :: string where
  "greeting = ''Hello from ECS deployed via Azure DevOps '' @ [CHR 0xF0, CHR 0x9F, CHR 0x9A, CHR 0x80]"

definition root_handler :: handler where
  "root_handler ps req res = (ps, send req res greeting)"

text \<open>
  The file, run in an environment. It reads neither the environment variables nor the
  command line.
\<close>

definition node_app_js :: "environment \<Rightarrow> startup" where
  "node_app_js e =
     app_listen e PORT (console_log (''App running on port '' @ decimal PORT))
       (app_get ''/'' root_handler express)"

text \<open>The server that the file leaves listening when the bind succeeds.\<close>

definition app_js :: server where
  "app_js =
     bind_port PORT (console_log (''App running on port '' @ decimal PORT))
       (app_get ''/'' root_handler express)"

text \<open>Serving one request, and a sequence of requests one after the other.\<close>

definition serve :: "server \<Rightarrow> request \<Rightarrow> server \<times> reply" where
  "serve s req = (case app_handle (app s) (proc s) req of (ps', rep) \<Rightarrow> (s\<lparr>proc := ps'\<rparr>, rep))"

fun run :: "server \<Rightarrow> request list \<Rightarrow> server \<times> reply list" where
  "run s [] = (s, [])"
| "run s (r # rs) =
     (case serve s r of (s', rep) \<Rightarrow> (case run s' rs of (s'', reps) \<Rightarrow> (s'', rep # reps)))"

section \<open>Properties\<close>

subsection \<open>The route pattern and the start-up\<close>

text \<open>The pattern of the root route takes the path \<open>/\<close>, and the empty path, only.\<close>

lemma lower_char_of_slash: "lower_char CHR ''/'' = CHR ''/''"
  by (simp add: lower_char_def)

lemma lower_char_slash: "lower_char c = CHR ''/'' \<longleftrightarrow> c = CHR ''/''"
proof (cases "65 \<le> (of_char c :: nat) \<and> (of_char c :: nat) \<le> 90")
  case True
  have "char_of (of_char c + 32 :: nat) \<noteq> CHR ''/''"
  proof
    assume "char_of (of_char c + 32 :: nat) = CHR ''/''"
    then have "(of_char (char_of (of_char c + 32 :: nat)) :: nat) = of_char CHR ''/''"
      by simp
    moreover have "(of_char (char_of (of_char c + 32 :: nat)) :: nat) = of_char c + 32"
      using True by simp
    ultimately show False
      using True by simp
  qed
  moreover have "c \<noteq> CHR ''/''"
    using True by auto
  ultimately show ?thesis
    using True by (simp add: lower_char_def Let_def)
next
  case False
  then show ?thesis
    by (auto simp add: lower_char_def Let_def)
qed

lemma root_pattern: "path_matches ''/'' p \<longleftrightarrow> p = ''/'' \<or> p = []"
  by (auto simp add: path_matches_def Let_def lower_char_of_slash lower_char_slash)

text \<open>The state in which app.js leaves the server once it listens.\<close>

lemma decimal_3000: "decimal 3000 = ''3000''"
  by (simp add: decimal_def to_radix.simps digit_char_def)

lemma decimal_45: "decimal 45 = ''45''"
  by (simp add: decimal_def to_radix.simps digit_char_def)

lemma length_greeting: "length greeting = 45"
  by (simp add: greeting_def)

lemma app_js_state:
  "app_js = \<lparr>app = [\<lparr>route_path = ''/'', route_method = GET, route_handle = root_handler\<rparr>],
             proc = \<lparr>listening = [3000], console = [''App running on port 3000'']\<rparr>\<rparr>"
  by (simp add: app_js_def bind_port_def app_get_def express_def console_log_def PORT_def
        decimal_3000)

text \<open>Start-up in an environment: it depends on whether port 3000 is taken, and on nothing else.\<close>

lemma node_app_js_startup:
  "node_app_js e = (if 3000 \<in> set (ports_taken e) then BindFailed else Listening app_js)"
  by (simp add: node_app_js_def app_listen_def app_js_def PORT_def)

subsection \<open>What \<open>res.send\<close> does with the greeting\<close>

text \<open>
  A request can only be fresh when it carries \<open>If-None-Match\<close>: a response of this
  application has no \<open>Last-Modified\<close> for \<open>If-Modified-Since\<close> to be compared with. With
  \<open>If-None-Match: *\<close> and nothing else it is fresh.
\<close>

lemma fresh_needs_none_match:
  "\<not> truthy (map_of hs ''if-none-match'') \<Longrightarrow> \<not> fresh hs etag"
  by (simp add: fresh_def Let_def)

lemma fresh_star: "fresh [(''if-none-match'', ''*'')] etag"
  by (simp add: fresh_def truthy_def)

text \<open>
  So is a request that sends back, in \<open>If-None-Match\<close>, the entity tag that the server
  gave it: the tag has neither a comma nor a space in it, so the list read from the header
  is the tag alone.
\<close>

lemma parseTokenList_plain:
  "list_all plain cs \<Longrightarrow> parseTokenList cur [] cs = [cur @ cs]"
  by (induction cs arbitrary: cur) (simp_all add: plain_def)

lemma b64_alphabet_plain: "list_all plain b64_alphabet"
  by (simp add: b64_alphabet_def plain_def)

lemma b64_char_plain: "plain (b64_char n)"
proof -
  have "n AND 63 \<le> 63"
    by (rule word_and_le1)
  then have "unat (n AND 63) < 64"
    by (simp add: word_le_nat_alt)
  moreover have "length b64_alphabet = 64"
    by (simp add: b64_alphabet_def)
  ultimately have "b64_alphabet ! unat (n AND 63) \<in> set b64_alphabet"
    by (intro nth_mem) simp
  then show ?thesis
    using b64_alphabet_plain by (simp add: b64_char_def list_all_iff)
qed

lemma base64_plain: "list_all plain (base64 bs)"
proof (induction bs rule: base64.induct)
  case (1 a b c bs)
  then show ?case by (simp add: Let_def b64_char_plain)
next
  case (2 a b)
  have "plain CHR ''=''"
    by (simp add: plain_def)
  then show ?case by (simp add: Let_def b64_char_plain)
next
  case (3 a)
  have "plain CHR ''=''"
    by (simp add: plain_def)
  then show ?case by (simp add: Let_def b64_char_plain)
next
  case 4
  then show ?case by simp
qed

lemma digit_char_plain: "d < 16 \<Longrightarrow> plain (digit_char d)"
proof -
  assume "d < 16"
  then have "digit_char d \<in> set ''0123456789abcdef''"
    unfolding digit_char_def by (intro nth_mem) simp
  then show ?thesis
    by (auto simp add: plain_def)
qed

lemma hex_plain: "list_all plain (hex n)"
proof -
  have "list_all plain (to_radix 16 n)"
  proof (induction n rule: less_induct)
    case (less n)
    show ?case
    proof (cases "n < 16")
      case True
      then show ?thesis
        by (simp add: to_radix.simps digit_char_plain)
    next
      case False
      then have "list_all plain (to_radix 16 (n div 16))"
        by (intro less.IH) simp
      with False show ?thesis
        by (subst to_radix.simps) (simp add: digit_char_plain)
    qed
  qed
  then show ?thesis
    by (simp add: hex_def)
qed

lemma list_all_take: "list_all P xs \<Longrightarrow> list_all P (take n xs)"
  by (auto simp add: list_all_iff dest: in_set_takeD)

lemma entitytag_plain: "list_all plain (entitytag entity)"
proof (cases "entity = []")
  case True
  then show ?thesis
    by (simp add: entitytag_def plain_def)
next
  case False
  have "plain (CHR 0x22)" and "plain CHR ''-''"
    by (simp_all add: plain_def)
  with False show ?thesis
    by (simp add: entitytag_def hex_plain list_all_take [OF base64_plain])
qed

lemma etag_weak_plain: "list_all plain (etag_weak entity)"
proof -
  have "plain CHR ''W''" and "plain CHR ''/''"
    by (simp_all add: plain_def)
  then show ?thesis
    by (simp add: etag_weak_def entitytag_plain)
qed

lemma etag_weak_not_star: "etag_weak entity \<noteq> [] \<and> etag_weak entity \<noteq> ''*''"
  by (simp add: etag_weak_def)

lemma etag_matches_itself: "etag_matches (etag_weak entity) (etag_weak entity)"
  by (simp add: etag_matches_def parseTokenList_plain [OF etag_weak_plain])

lemma fresh_revalidation:
  "fresh [(''if-none-match'', etag_weak entity)] (Some (etag_weak entity))"
  using etag_weak_not_star [of entity] etag_matches_itself [of entity]
  by (simp add: fresh_def truthy_def)

text \<open>The steps of \<open>send\<close> on the response that the framework hands to the handler.\<close>

lemma send_no_type_yet:
  "get_header \<lparr>statusCode = 200, res_headers = [(''X-Powered-By'', ''Express'')], res_body = []\<rparr>
     ''Content-Type'' = None"
  by (simp add: get_header_def)

lemma send_no_etag_yet:
  "get_header
     (set_header ''Content-Length'' l
        (set_header ''Content-Type'' t
           \<lparr>statusCode = 200, res_headers = [(''X-Powered-By'', ''Express'')], res_body = []\<rparr>))
     ''ETag'' = None"
  by (simp add: set_header_def get_header_def)

lemma send_headers:
  "set_header ''ETag'' e
     (set_header ''Content-Length'' l
        (set_header ''Content-Type'' t
           \<lparr>statusCode = 200, res_headers = [(''X-Powered-By'', ''Express'')], res_body = []\<rparr>)) =
   \<lparr>statusCode = 200,
     res_headers = [(''X-Powered-By'', ''Express''), (''Content-Type'', t),
                    (''Content-Length'', l), (''ETag'', e)],
     res_body = []\<rparr>"
  by (simp add: set_header_def)

lemma send_strip:
  "remove_header ''Transfer-Encoding''
     (remove_header ''Content-Length''
        (remove_header ''Content-Type''
           \<lparr>statusCode = s,
             res_headers = [(''X-Powered-By'', ''Express''), (''Content-Type'', t),
                            (''Content-Length'', l), (''ETag'', e)],
             res_body = b\<rparr>)) =
   \<lparr>statusCode = s, res_headers = [(''X-Powered-By'', ''Express''), (''ETag'', e)], res_body = b\<rparr>"
  by (simp add: remove_header_def)

lemma send_req_fresh:
  "req_fresh r
     \<lparr>statusCode = 200,
       res_headers = [(''X-Powered-By'', ''Express''), (''Content-Type'', t),
                      (''Content-Length'', l), (''ETag'', e)],
       res_body = b\<rparr> =
   ((req_method r = GET \<or> req_method r = HEAD) \<and> fresh (req_headers r) (Some e))"
  by (simp add: req_fresh_def get_header_def)

lemma send_greeting_fresh:
  assumes "req_method r = GET \<or> req_method r = HEAD"
    and "fresh (req_headers r) (Some (etag_weak greeting))"
  shows "send r \<lparr>statusCode = 200, res_headers = [(''X-Powered-By'', ''Express'')], res_body = []\<rparr>
           greeting =
         \<lparr>statusCode = 304,
           res_headers = [(''X-Powered-By'', ''Express''), (''ETag'', etag_weak greeting)],
           res_body = []\<rparr>"
proof -
  have "req_fresh r
          \<lparr>statusCode = 200,
            res_headers = [(''X-Powered-By'', ''Express''),
                           (''Content-Type'', ''text/html; charset=utf-8''),
                           (''Content-Length'', ''45''), (''ETag'', etag_weak greeting)],
            res_body = []\<rparr>"
    using assms by (simp add: send_req_fresh)
  then show ?thesis
    by (simp add: send_def Let_def send_no_type_yet send_headers send_no_etag_yet send_strip
          length_greeting decimal_45)
qed

lemma send_greeting_stale:
  assumes "\<not> fresh (req_headers r) (Some (etag_weak greeting))"
  shows "send r \<lparr>statusCode = 200, res_headers = [(''X-Powered-By'', ''Express'')], res_body = []\<rparr>
           greeting =
         \<lparr>statusCode = 200,
           res_headers = [(''X-Powered-By'', ''Express''),
                          (''Content-Type'', ''text/html; charset=utf-8''),
                          (''Content-Length'', ''45''), (''ETag'', etag_weak greeting)],
           res_body = (if req_method r = HEAD then [] else greeting)\<rparr>"
proof -
  have "\<not> req_fresh r
          \<lparr>statusCode = 200,
            res_headers = [(''X-Powered-By'', ''Express''),
                           (''Content-Type'', ''text/html; charset=utf-8''),
                           (''Content-Length'', ''45''), (''ETag'', etag_weak greeting)],
            res_body = []\<rparr>"
    using assms by (simp add: send_req_fresh)
  then show ?thesis
    by (simp add: send_def Let_def send_no_type_yet send_headers send_no_etag_yet
          length_greeting decimal_45)
qed

subsection \<open>Serving from the state after start-up\<close>

text \<open>
  The state is returned as it was, and the reply depends on the path and the method as
  follows.
\<close>

lemma serve_app_js:
  "serve app_js r =
     (app_js,
      if req_path r = ''/'' \<or> req_path r = [] then
        (if req_method r = GET \<or> req_method r = HEAD then
           Sent (send r \<lparr>statusCode = 200, res_headers = [(''X-Powered-By'', ''Express'')],
                          res_body = []\<rparr> greeting)
         else if req_method r = OPTIONS then Allowed [GET, HEAD]
         else NotFound)
      else NotFound)"
  by (simp add: serve_def app_handle_def app_js_state root_pattern handles_method_def
        route_options_def appendMethods_def root_handler_def set_header_def)

lemma run_app_js: "run app_js rs = (app_js, map (\<lambda>r. snd (serve app_js r)) rs)"
  by (induction rs) (simp_all add: serve_app_js)

lemma serve_get_root:
  assumes "req_method r = GET" and "req_path r = ''/''"
    and "\<not> truthy (map_of (req_headers r) ''if-none-match'')"
  shows "snd (serve app_js r) =
           Sent \<lparr>statusCode = 200,
                 res_headers = [(''X-Powered-By'', ''Express''),
                                (''Content-Type'', ''text/html; charset=utf-8''),
                                (''Content-Length'', ''45''), (''ETag'', etag_weak greeting)],
                 res_body = greeting\<rparr>"
  using assms by (simp add: serve_app_js send_greeting_stale fresh_needs_none_match)

lemma serve_root_star:
  assumes "m = GET \<or> m = HEAD"
  shows "snd (serve app_js
           \<lparr>req_method = m, req_path = ''/'', req_query = [],
             req_headers = [(''if-none-match'', ''*'')], req_body = []\<rparr>) =
         Sent \<lparr>statusCode = 304,
               res_headers = [(''X-Powered-By'', ''Express''), (''ETag'', etag_weak greeting)],
               res_body = []\<rparr>"
  using assms by (simp add: serve_app_js send_greeting_fresh fresh_star)

text \<open>
  Revalidation: a GET on \<open>/\<close> that presents the entity tag of the greeting is answered
  with 304 Not Modified and no body.
\<close>

lemma serve_root_revalidation:
  "snd (serve app_js
     \<lparr>req_method = GET, req_path = ''/'', req_query = [],
       req_headers = [(''if-none-match'', etag_weak greeting)], req_body = []\<rparr>) =
   Sent \<lparr>statusCode = 304,
         res_headers = [(''X-Powered-By'', ''Express''), (''ETag'', etag_weak greeting)],
         res_body = []\<rparr>"
  by (simp add: serve_app_js send_greeting_fresh fresh_revalidation)

subsection \<open>GET on the root path\<close>

text \<open>
  Claim C1, as amended. Every request with method GET and path \<open>/\<close> that carries no
  \<open>If-None-Match\<close> header is answered with status 200 and the greeting as body, whatever
  else it carries; and \<open>n\<close> such calls in a row return \<open>n\<close> identical replies.
\<close>

theorem get_root_repeated:
  assumes "req_method r = GET" and "req_path r = ''/''"
    and "\<not> truthy (map_of (req_headers r) ''if-none-match'')"
  shows "snd (run app_js (replicate n r)) =
           replicate n
             (Sent \<lparr>statusCode = 200,
                    res_headers = [(''X-Powered-By'', ''Express''),
                                   (''Content-Type'', ''text/html; charset=utf-8''),
                                   (''Content-Length'', ''45''), (''ETag'', etag_weak greeting)],
                    res_body = greeting\<rparr>)"
  using serve_get_root [OF assms] by (simp add: run_app_js)

text \<open>
  Claim C1, witness: two calls in a row of a GET on \<open>/\<close> with a query string and an
  \<open>Accept\<close> header.
\<close>

theorem get_root_repeated_witness:
  "snd (run app_js
     (replicate (Suc (Suc 0))
        \<lparr>req_method = GET, req_path = ''/'', req_query = ''a=1'',
          req_headers = [(''accept'', ''*/*'')], req_body = []\<rparr>)) =
   [Sent \<lparr>statusCode = 200,
          res_headers = [(''X-Powered-By'', ''Express''),
                         (''Content-Type'', ''text/html; charset=utf-8''),
                         (''Content-Length'', ''45''), (''ETag'', etag_weak greeting)],
          res_body = greeting\<rparr>,
    Sent \<lparr>statusCode = 200,
          res_headers = [(''X-Powered-By'', ''Express''),
                         (''Content-Type'', ''text/html; charset=utf-8''),
                         (''Content-Length'', ''45''), (''ETag'', etag_weak greeting)],
          res_body = greeting\<rparr>]"
  using get_root_repeated
    [of "\<lparr>req_method = GET, req_path = ''/'', req_query = ''a=1'',
           req_headers = [(''accept'', ''*/*'')], req_body = []\<rparr>" "Suc (Suc 0)"]
  by (simp add: truthy_def)

text \<open>
  Claim C1, counterexample to the claim as it was stated (status 200 for every GET on
  \<open>/\<close>): a GET on \<open>/\<close> with the header \<open>If-None-Match: *\<close> is fresh, and \<open>res.send\<close>
  answers it with 304 Not Modified.
\<close>

theorem get_root_conditional_counterexample:
  "reply_status (snd (serve app_js
     \<lparr>req_method = GET, req_path = ''/'', req_query = [],
       req_headers = [(''if-none-match'', ''*'')], req_body = []\<rparr>)) = 304"
  by (simp add: serve_root_star)

text \<open>
  Claim C2, as amended. A GET on the root path that carries no \<open>If-None-Match\<close> header
  receives the greeting with status 200 whatever its query string, its body and its other
  headers are.
\<close>

theorem get_root_any_input:
  assumes "\<not> truthy (map_of hs ''if-none-match'')"
  shows "snd (serve app_js
           \<lparr>req_method = GET, req_path = ''/'', req_query = q, req_headers = hs, req_body = b\<rparr>) =
         Sent \<lparr>statusCode = 200,
               res_headers = [(''X-Powered-By'', ''Express''),
                              (''Content-Type'', ''text/html; charset=utf-8''),
                              (''Content-Length'', ''45''), (''ETag'', etag_weak greeting)],
               res_body = greeting\<rparr>"
  using assms by (simp add: serve_get_root)

text \<open>
  Claim C2, witness: a GET on \<open>/\<close> with a query string, two headers and a body.
\<close>

theorem get_root_any_input_witness:
  "snd (serve app_js
     \<lparr>req_method = GET, req_path = ''/'', req_query = ''name=x&n=2'',
       req_headers = [(''user-agent'', ''curl/8.0''), (''content-type'', ''application/json'')],
       req_body = ''{}''\<rparr>) =
   Sent \<lparr>statusCode = 200,
         res_headers = [(''X-Powered-By'', ''Express''),
                        (''Content-Type'', ''text/html; charset=utf-8''),
                        (''Content-Length'', ''45''), (''ETag'', etag_weak greeting)],
         res_body = greeting\<rparr>"
  using get_root_any_input
    [of "[(''user-agent'', ''curl/8.0''), (''content-type'', ''application/json'')]"
        "''name=x&n=2''" "''{}''"]
  by (simp add: truthy_def)

text \<open>
  Claim C2, counterexample to the claim as it was stated (the greeting for every request
  to \<open>/\<close>, whatever its method and headers): a POST on \<open>/\<close> finds no route and gets the
  default 404, and a GET on \<open>/\<close> with \<open>If-None-Match: *\<close> gets 304 and no payload.
\<close>

theorem root_any_request_counterexample:
  "snd (serve app_js
     \<lparr>req_method = POST, req_path = ''/'', req_query = [], req_headers = [],
       req_body = ''x=1''\<rparr>) = NotFound
   \<and> snd (serve app_js
     \<lparr>req_method = GET, req_path = ''/'', req_query = [],
       req_headers = [(''if-none-match'', ''*'')], req_body = []\<rparr>) =
     Sent \<lparr>statusCode = 304,
           res_headers = [(''X-Powered-By'', ''Express''), (''ETag'', etag_weak greeting)],
           res_body = []\<rparr>"
proof
  show "snd (serve app_js
     \<lparr>req_method = POST, req_path = ''/'', req_query = [], req_headers = [],
       req_body = ''x=1''\<rparr>) = NotFound"
    by (simp add: serve_app_js)
next
  show "snd (serve app_js
     \<lparr>req_method = GET, req_path = ''/'', req_query = [],
       req_headers = [(''if-none-match'', ''*'')], req_body = []\<rparr>) =
     Sent \<lparr>statusCode = 304,
           res_headers = [(''X-Powered-By'', ''Express''), (''ETag'', etag_weak greeting)],
           res_body = []\<rparr>"
    by (simp add: serve_root_star)
qed

text \<open>
  Claim C9, as amended. The reply to a GET on \<open>/\<close> that carries no \<open>If-None-Match\<close>
  header has exactly the 45 bytes of the greeting as body (the text and the UTF-8 encoding
  of U+1F680), and its \<open>Content-Type\<close> is \<open>text/html; charset=utf-8\<close>.
\<close>

theorem greeting_body_and_type:
  assumes "req_method r = GET" and "req_path r = ''/''"
    and "\<not> truthy (map_of (req_headers r) ''if-none-match'')"
  shows "case snd (serve app_js r) of
           Sent res \<Rightarrow>
             res_body res =
               ''Hello from ECS deployed via Azure DevOps '' @ [CHR 0xF0, CHR 0x9F, CHR 0x9A, CHR 0x80]
             \<and> map_of (res_headers res) ''Content-Type'' = Some ''text/html; charset=utf-8''
             \<and> map_of (res_headers res) ''Content-Length'' = Some ''45''
         | _ \<Rightarrow> False"
  using serve_get_root [OF assms] by (simp add: greeting_def)

text \<open>Claim C9, witness: a plain GET on \<open>/\<close>.\<close>

theorem greeting_body_and_type_witness:
  "case snd (serve app_js
          \<lparr>req_method = GET, req_path = ''/'', req_query = [], req_headers = [], req_body = []\<rparr>) of
     Sent res \<Rightarrow>
       res_body res =
         ''Hello from ECS deployed via Azure DevOps '' @ [CHR 0xF0, CHR 0x9F, CHR 0x9A, CHR 0x80]
       \<and> map_of (res_headers res) ''Content-Type'' = Some ''text/html; charset=utf-8''
       \<and> map_of (res_headers res) ''Content-Length'' = Some ''45''
   | _ \<Rightarrow> False"
  using greeting_body_and_type
    [of "\<lparr>req_method = GET, req_path = ''/'', req_query = [], req_headers = [], req_body = []\<rparr>"]
  by (simp add: truthy_def)

text \<open>
  Claim C9, counterexample to the claim as it was stated (the body and the type of the
  reply to every GET on \<open>/\<close>): the reply to a GET on \<open>/\<close> with \<open>If-None-Match: *\<close> has an
  empty body and no \<open>Content-Type\<close> header.
\<close>

theorem greeting_body_counterexample:
  "case snd (serve app_js
          \<lparr>req_method = GET, req_path = ''/'', req_query = [],
            req_headers = [(''if-none-match'', ''*'')], req_body = []\<rparr>) of
     Sent res \<Rightarrow> res_body res = [] \<and> map_of (res_headers res) ''Content-Type'' = None
   | _ \<Rightarrow> False"
  by (simp add: serve_root_star)

subsection \<open>HEAD on the root path\<close>

text \<open>
  Claim C10, as amended. A HEAD request on \<open>/\<close> is taken by the route registered for GET:
  its reply has the status and the headers of the reply to the same request sent with GET,
  and an empty body. The status is 200 when the request carries no \<open>If-None-Match\<close>
  header.
\<close>

theorem head_root_like_get:
  assumes "req_method r = HEAD" and "req_path r = ''/''"
  shows "(case (snd (serve app_js r), snd (serve app_js (r\<lparr>req_method := GET\<rparr>))) of
            (Sent h, Sent g) \<Rightarrow>
              statusCode h = statusCode g \<and> res_headers h = res_headers g \<and> res_body h = []
          | _ \<Rightarrow> False)
         \<and> (\<not> truthy (map_of (req_headers r) ''if-none-match'')
              \<longrightarrow> reply_status (snd (serve app_js r)) = 200)"
proof (cases "fresh (req_headers r) (Some (etag_weak greeting))")
  case True
  then have "truthy (map_of (req_headers r) ''if-none-match'')"
    using fresh_needs_none_match by blast
  with True show ?thesis
    using assms by (simp add: serve_app_js send_greeting_fresh)
next
  case False
  then show ?thesis
    using assms by (simp add: serve_app_js send_greeting_stale)
qed

text \<open>Claim C10, witness: a HEAD on \<open>/\<close> and the GET it is compared with.\<close>

theorem head_root_like_get_witness:
  "snd (serve app_js
     \<lparr>req_method = HEAD, req_path = ''/'', req_query = [], req_headers = [(''accept'', ''*/*'')],
       req_body = []\<rparr>) =
   Sent \<lparr>statusCode = 200,
         res_headers = [(''X-Powered-By'', ''Express''),
                        (''Content-Type'', ''text/html; charset=utf-8''),
                        (''Content-Length'', ''45''), (''ETag'', etag_weak greeting)],
         res_body = []\<rparr>
   \<and> snd (serve app_js
     \<lparr>req_method = GET, req_path = ''/'', req_query = [], req_headers = [(''accept'', ''*/*'')],
       req_body = []\<rparr>) =
   Sent \<lparr>statusCode = 200,
         res_headers = [(''X-Powered-By'', ''Express''),
                        (''Content-Type'', ''text/html; charset=utf-8''),
                        (''Content-Length'', ''45''), (''ETag'', etag_weak greeting)],
         res_body = greeting\<rparr>"
  using head_root_like_get
    [of "\<lparr>req_method = HEAD, req_path = ''/'', req_query = [], req_headers = [(''accept'', ''*/*'')],
           req_body = []\<rparr>"]
  by (simp add: serve_app_js send_greeting_stale fresh_needs_none_match truthy_def)

text \<open>
  Claim C10, counterexample to the claim as it was stated (status 200 for a HEAD on
  \<open>/\<close>): a HEAD on \<open>/\<close> with \<open>If-None-Match: *\<close> gets 304.
\<close>

theorem head_root_conditional_counterexample:
  "reply_status (snd (serve app_js
     \<lparr>req_method = HEAD, req_path = ''/'', req_query = [],
       req_headers = [(''if-none-match'', ''*'')], req_body = []\<rparr>)) = 304"
  by (simp add: serve_root_star)

subsection \<open>Requests that the root route does not take\<close>

text \<open>
  Claim C8, as amended. A request that reaches the application with a method other than
  GET, HEAD and OPTIONS, or with a path other than \<open>/\<close> and \<open>//\<close> (and other than the empty
  path, which the path of a request never is), falls through to the default 404 Not Found;
  and the root route is the only layer that app.js registers.
\<close>

theorem unmatched_not_found:
  assumes "req_method r \<notin> {GET, HEAD, OPTIONS} \<or> req_path r \<notin> {''/'', ''//'', []}"
  shows "snd (serve app_js r) = NotFound
         \<and> app app_js = [\<lparr>route_path = ''/'', route_method = GET, route_handle = root_handler\<rparr>]"
proof
  show "snd (serve app_js r) = NotFound"
    using assms by (auto simp add: serve_app_js)
next
  show "app app_js = [\<lparr>route_path = ''/'', route_method = GET, route_handle = root_handler\<rparr>]"
    by (simp add: app_js_state)
qed

text \<open>
  Claim C8, witness: a DELETE on \<open>/\<close>, a PROPFIND on \<open>/\<close>, and a GET on \<open>/health\<close>.
\<close>

theorem unmatched_not_found_witness:
  "snd (serve app_js
     \<lparr>req_method = DELETE, req_path = ''/'', req_query = [], req_headers = [], req_body = []\<rparr>) =
     NotFound
   \<and> snd (serve app_js
     \<lparr>req_method = PROPFIND, req_path = ''/'', req_query = [], req_headers = [],
       req_body = []\<rparr>) = NotFound
   \<and> snd (serve app_js
     \<lparr>req_method = GET, req_path = ''/health'', req_query = [], req_headers = [],
       req_body = []\<rparr>) = NotFound"
  using
    unmatched_not_found
      [of "\<lparr>req_method = DELETE, req_path = ''/'', req_query = [], req_headers = [],
             req_body = []\<rparr>"]
    unmatched_not_found
      [of "\<lparr>req_method = PROPFIND, req_path = ''/'', req_query = [], req_headers = [],
             req_body = []\<rparr>"]
    unmatched_not_found
      [of "\<lparr>req_method = GET, req_path = ''/health'', req_query = [], req_headers = [],
             req_body = []\<rparr>"]
  by simp

text \<open>
  Claim C8, counterexample to the claim as it was stated (404 for every method other than
  GET and HEAD): an OPTIONS request on \<open>/\<close> gets the router's automatic answer, status 200
  with the methods GET and HEAD allowed.
\<close>

theorem options_root_counterexample:
  "snd (serve app_js
     \<lparr>req_method = OPTIONS, req_path = ''/'', req_query = [], req_headers = [], req_body = []\<rparr>) =
     Allowed [GET, HEAD]
   \<and> reply_status (Allowed [GET, HEAD]) = 200"
  by (simp add: serve_app_js)

text \<open>
  Claim C3. For a request other than a GET on \<open>/\<close>, two runs of the server, whatever each
  has served before, answer the same request with the same status.
\<close>

theorem unmatched_status_deterministic:
  assumes "\<not> (req_method r = GET \<and> req_path r = ''/'')"
  shows "reply_status (snd (serve (fst (run app_js h1)) r)) =
         reply_status (snd (serve (fst (run app_js h2)) r))"
proof -
  have "fst (run app_js h) = app_js" for h
    by (simp add: run_app_js)
  then show ?thesis
    by simp
qed

text \<open>
  Claim C3, witness: a POST on \<open>/\<close>, and a GET on \<open>/anything\<close>, each sent to a run that has
  served nothing and to a run that has served two requests; the status is 404 each time.
\<close>

theorem unmatched_status_deterministic_witness:
  "reply_status (snd (serve (fst (run app_js []))
     \<lparr>req_method = POST, req_path = ''/'', req_query = [], req_headers = [], req_body = []\<rparr>)) = 404
   \<and> reply_status (snd (serve (fst (run app_js
         [\<lparr>req_method = GET, req_path = ''/'', req_query = [], req_headers = [], req_body = []\<rparr>,
          \<lparr>req_method = PUT, req_path = ''/x'', req_query = [], req_headers = [], req_body = []\<rparr>]))
     \<lparr>req_method = POST, req_path = ''/'', req_query = [], req_headers = [], req_body = []\<rparr>)) = 404
   \<and> reply_status (snd (serve (fst (run app_js []))
     \<lparr>req_method = GET, req_path = ''/anything'', req_query = [], req_headers = [],
       req_body = []\<rparr>)) = 404
   \<and> reply_status (snd (serve (fst (run app_js
         [\<lparr>req_method = GET, req_path = ''/'', req_query = [], req_headers = [], req_body = []\<rparr>,
          \<lparr>req_method = PUT, req_path = ''/x'', req_query = [], req_headers = [], req_body = []\<rparr>]))
     \<lparr>req_method = GET, req_path = ''/anything'', req_query = [], req_headers = [],
       req_body = []\<rparr>)) = 404"
proof -
  let ?h = "[\<lparr>req_method = GET, req_path = ''/'', req_query = [], req_headers = [], req_body = []\<rparr>,
             \<lparr>req_method = PUT, req_path = ''/x'', req_query = [], req_headers = [], req_body = []\<rparr>]"
  let ?post = "\<lparr>req_method = POST, req_path = ''/'', req_query = [], req_headers = [],
                 req_body = []\<rparr>"
  let ?get = "\<lparr>req_method = GET, req_path = ''/anything'', req_query = [], req_headers = [],
                req_body = []\<rparr>"
  have post: "\<not> (req_method ?post = GET \<and> req_path ?post = ''/'')"
    by simp
  have get: "\<not> (req_method ?get = GET \<and> req_path ?get = ''/'')"
    by simp
  have "reply_status (snd (serve (fst (run app_js [])) ?post)) = 404"
    by (simp add: serve_app_js)
  moreover have "reply_status (snd (serve (fst (run app_js [])) ?get)) = 404"
    by (simp add: serve_app_js)
  ultimately show ?thesis
    using unmatched_status_deterministic [OF post, of "[]" ?h]
      unmatched_status_deterministic [OF get, of "[]" ?h]
    by simp
qed

subsection \<open>The port and the state of the server\<close>

text \<open>
  Claim C5, as amended. The port is the constant 3000 of the source, whatever the
  environment variables and the command line are. Started where port 3000 is free, the
  file leaves the server listening, on port 3000 and on no other, and after any sequence of
  requests the process still listens on exactly that port. Started where port 3000 is
  taken, the one attempt to bind fails and the process never listens.
\<close>

theorem port_fixed_and_bound:
  "(3000 \<notin> set (ports_taken e) \<longrightarrow>
      node_app_js e = Listening app_js
      \<and> listening (proc app_js) = [3000]
      \<and> listening (proc (fst (run app_js rs))) = [3000])
   \<and> (3000 \<in> set (ports_taken e) \<longrightarrow> node_app_js e = BindFailed)"
proof -
  have "listening (proc (fst (run app_js rs))) = listening (proc app_js)"
    by (simp add: run_app_js)
  moreover have "listening (proc app_js) = [3000]"
    by (simp add: app_js_state)
  ultimately show ?thesis
    by (simp add: node_app_js_startup)
qed

text \<open>
  Claim C5, witness: started where only port 80 is taken, the server listens, and it
  listens on port 3000 after a GET on \<open>/\<close> and a POST on \<open>/\<close>.
\<close>

theorem port_fixed_and_bound_witness:
  "node_app_js \<lparr>env_vars = [], argv = [''node'', ''app.js''], ports_taken = [80]\<rparr> =
     Listening app_js
   \<and> listening (proc (fst (run app_js
     [\<lparr>req_method = GET, req_path = ''/'', req_query = [], req_headers = [], req_body = []\<rparr>,
      \<lparr>req_method = POST, req_path = ''/'', req_query = [], req_headers = [], req_body = []\<rparr>]))) =
     [3000]"
  using port_fixed_and_bound
    [of "\<lparr>env_vars = [], argv = [''node'', ''app.js''], ports_taken = [80]\<rparr>"
        "[\<lparr>req_method = GET, req_path = ''/'', req_query = [], req_headers = [], req_body = []\<rparr>,
          \<lparr>req_method = POST, req_path = ''/'', req_query = [], req_headers = [], req_body = []\<rparr>]"]
  by simp

text \<open>
  Claim C5, counterexample to the claim as it was stated (a configurable port, bound
  exactly once per start): started with \<open>PORT=8080\<close> in the environment and \<open>8080\<close> on
  the command line, the server listens on 3000 all the same; and started where port 3000 is
  taken, the process binds no port at all.
\<close>

theorem port_counterexample:
  "node_app_js
     \<lparr>env_vars = [(''PORT'', ''8080'')], argv = [''node'', ''app.js'', ''8080''],
       ports_taken = []\<rparr> = Listening app_js
   \<and> listening (proc app_js) = [3000]
   \<and> node_app_js
     \<lparr>env_vars = [], argv = [''node'', ''app.js''], ports_taken = [3000]\<rparr> = BindFailed"
  by (simp add: node_app_js_startup app_js_state)

text \<open>
  Claim C6. Serving a request to the root path, in any state that the server reaches from
  start-up, returns the state as it was: the routes with their handler and its payload, the
  ports listened on and the console are all unchanged.
\<close>

theorem root_request_leaves_state:
  assumes "req_path r = ''/''"
  shows "fst (serve (fst (run app_js rs)) r) = fst (run app_js rs)"
proof -
  have "fst (run app_js rs) = app_js"
    by (simp add: run_app_js)
  moreover have "fst (serve app_js r) = app_js"
    by (simp add: serve_app_js)
  ultimately show ?thesis
    by simp
qed

text \<open>
  Claim C6, witness: a GET on \<open>/\<close> served after a POST on \<open>/\<close> leaves the state that
  start-up produced.
\<close>

theorem root_request_leaves_state_witness:
  "fst (serve (fst (run app_js
          [\<lparr>req_method = POST, req_path = ''/'', req_query = [], req_headers = [],
             req_body = []\<rparr>]))
        \<lparr>req_method = GET, req_path = ''/'', req_query = [], req_headers = [], req_body = []\<rparr>) =
   \<lparr>app = [\<lparr>route_path = ''/'', route_method = GET, route_handle = root_handler\<rparr>],
     proc = \<lparr>listening = [3000], console = [''App running on port 3000'']\<rparr>\<rparr>"
proof -
  let ?h = "[\<lparr>req_method = POST, req_path = ''/'', req_query = [], req_headers = [],
               req_body = []\<rparr>]"
  let ?r = "\<lparr>req_method = GET, req_path = ''/'', req_query = [], req_headers = [], req_body = []\<rparr>"
  have "fst (serve (fst (run app_js ?h)) ?r) = fst (run app_js ?h)"
    using root_request_leaves_state [of ?r ?h] by simp
  also have "\<dots> = app_js"
    by (simp only: run_app_js fst_conv)
  finally show ?thesis
    by (simp only: app_js_state)
qed

text \<open>
  Claim C7. The reply to a request does not depend on the requests served before it: after
  any two histories, the same final request gets the same reply.
\<close>

theorem reply_independent_of_history:
  "last (snd (run app_js (h1 @ [r]))) = last (snd (run app_js (h2 @ [r])))"
proof -
  have "last (snd (run app_js (h @ [r]))) = snd (serve app_js r)" for h
    by (simp add: run_app_js)
  then show ?thesis
    by simp
qed

text \<open>
  Claim C7, witness: a GET on \<open>/\<close> gets the same reply as the first request of a run and
  after a POST and a conditional GET.
\<close>

theorem reply_independent_of_history_witness:
  "last (snd (run app_js
     ([] @ [\<lparr>req_method = GET, req_path = ''/'', req_query = [], req_headers = [],
              req_body = []\<rparr>]))) =
   last (snd (run app_js
     ([\<lparr>req_method = POST, req_path = ''/'', req_query = [], req_headers = [], req_body = ''x''\<rparr>,
       \<lparr>req_method = GET, req_path = ''/'', req_query = [],
         req_headers = [(''if-none-match'', ''*'')], req_body = []\<rparr>]
      @ [\<lparr>req_method = GET, req_path = ''/'', req_query = [], req_headers = [],
            req_body = []\<rparr>])))"
  using reply_independent_of_history
    [of "[]"
        "\<lparr>req_method = GET, req_path = ''/'', req_query = [], req_headers = [], req_body = []\<rparr>"
        "[\<lparr>req_method = POST, req_path = ''/'', req_query = [], req_headers = [],
            req_body = ''x''\<rparr>,
          \<lparr>req_method = GET, req_path = ''/'', req_query = [],
            req_headers = [(''if-none-match'', ''*'')], req_body = []\<rparr>]"]
  by blast

end
